theory Spec2Isabelle
  imports Main "HOL-Library.Word" "HOL-Library.Multiset" "HOL-Library.Sublist"
begin

section \<open>JavaScript values\<close>

text \<open>
  A JavaScript string is a sequence of UTF-16 code units: \<open>substring\<close>,
  \<open>includes\<close>, \<open>replace\<close> and \<open>trim\<close> all work on code units.
  \<open>str\<close> writes an ASCII literal of the source as such a sequence.
\<close>

type_synonym js_string = "16 word list"

definition str :: "string \<Rightarrow> js_string" where
  "str s = map (\<lambda>c. word_of_nat (of_char c)) s"

text \<open>
  \<open>x || null\<close> and \<open>if (x)\<close> on a value of type \<open>string | null | undefined\<close>:
  \<open>null\<close>, \<open>undefined\<close> (both \<open>None\<close>) and the empty string are falsy.
\<close>

fun or_null :: "js_string option \<Rightarrow> js_string option" where
  "or_null None = None"
| "or_null (Some s) = (if s = [] then None else Some s)"

text \<open>\<open>x || d\<close> with a string default \<open>d\<close>.\<close>

fun or_default :: "js_string option \<Rightarrow> js_string \<Rightarrow> js_string" where
  "or_default None d = d"
| "or_default (Some s) d = (if s = [] then d else s)"

text \<open>\<open>String.prototype.includes\<close>: the argument occurs at some position.\<close>

fun str_includes :: "js_string \<Rightarrow> js_string \<Rightarrow> bool" where
  "str_includes [] sub = (sub = [])"
| "str_includes (c # s) sub = (prefix sub (c # s) \<or> str_includes s sub)"

text \<open>
  \<open>String.prototype.trim\<close> removes the WhiteSpace and LineTerminator code units of
  ECMAScript from both ends.
\<close>

definition is_js_whitespace :: "16 word \<Rightarrow> bool" where
  "is_js_whitespace c \<longleftrightarrow>
     c \<in> {0x09, 0x0A, 0x0B, 0x0C, 0x0D, 0x20, 0xA0, 0x1680, 0x2028, 0x2029,
          0x202F, 0x205F, 0x3000, 0xFEFF}
     \<or> (0x2000 \<le> c \<and> c \<le> 0x200A)"

definition trim :: "js_string \<Rightarrow> js_string" where
  "trim s = rev (dropWhile is_js_whitespace (rev (dropWhile is_js_whitespace s)))"

text \<open>
  \<open>Array.prototype.sort\<close> with a comparator is stable; with a consistent comparator
  its result is the one of any stable sort. Here: insertion from the right, an element
  going in front of the first element it does not compare greater than.
\<close>

fun js_insert :: "('a \<Rightarrow> 'a \<Rightarrow> int) \<Rightarrow> 'a \<Rightarrow> 'a list \<Rightarrow> 'a list" where
  "js_insert cmp x [] = [x]"
| "js_insert cmp x (y # ys) = (if cmp x y \<le> 0 then x # y # ys else y # js_insert cmp x ys)"

definition js_sort :: "('a \<Rightarrow> 'a \<Rightarrow> int) \<Rightarrow> 'a list \<Rightarrow> 'a list" where
  "js_sort cmp xs = foldr (js_insert cmp) xs []"

text \<open>
  A JavaScript \<open>Map\<close> iterates in insertion order: an association list. \<open>set\<close> on a
  key already present replaces the value in place, on a new key it appends.
\<close>

type_synonym ('k, 'v) js_map = "('k \<times> 'v) list"

fun map_set :: "'k \<Rightarrow> 'v \<Rightarrow> ('k, 'v) js_map \<Rightarrow> ('k, 'v) js_map" where
  "map_set k v [] = [(k, v)]"
| "map_set k v (e # m) = (if fst e = k then (k, v) # m else e # map_set k v m)"

definition map_delete :: "'k \<Rightarrow> ('k, 'v) js_map \<Rightarrow> ('k, 'v) js_map" where
  "map_delete k m = filter (\<lambda>e. fst e \<noteq> k) m"

definition map_values :: "('k, 'v) js_map \<Rightarrow> 'v list" where
  "map_values m = map snd m"

definition map_entries :: "('k, 'v) js_map \<Rightarrow> ('k \<times> 'v) list" where
  "map_entries m = m"

definition map_keys :: "('k, 'v) js_map \<Rightarrow> 'k list" where
  "map_keys m = map fst m"

section \<open>The conversation store (MemStorage)\<close>

text \<open>
  Timestamps are the \<open>getTime()\<close> of a \<open>Date\<close>: integer milliseconds. The results of
  \<open>randomUUID()\<close> and \<open>new Date()\<close> are arguments of the operation that calls them.
  The records have the fields that the store and the handler read and write (\<open>id\<close> is
  \<open>id_user\<close>, \<open>id_conv\<close>, \<open>id_msg\<close>; the fields of an insert carry \<open>ins_\<close>).
  No operation on users is needed below; the third field of a user is named as the
  specification names it.
\<close>

record user =
  id_user :: js_string
  username :: js_string
  credential :: js_string

record conversation =
  id_conv :: js_string
  title :: js_string
  createdAt :: int

record insert_conversation =
  ins_title :: js_string

record message =
  id_msg :: js_string
  conversationId :: "js_string option"
  role :: js_string
  content :: js_string
  timestamp :: int

record insert_message =
  ins_conversationId :: "js_string option"
  ins_role :: js_string
  ins_content :: js_string

record mem_storage =
  users :: "(js_string, user) js_map"
  conversations :: "(js_string, conversation) js_map"
  messages :: "(js_string, message) js_map"

definition new_storage :: mem_storage where
  "new_storage = \<lparr>users = [], conversations = [], messages = []\<rparr>"

definition createConversation ::
  "mem_storage \<Rightarrow> insert_conversation \<Rightarrow> js_string \<Rightarrow> int \<Rightarrow> conversation \<times> mem_storage" where
  "createConversation s insertConversation uuid now =
     (let conv = \<lparr>id_conv = uuid, title = ins_title insertConversation, createdAt = now\<rparr>
      in (conv, s\<lparr>conversations := map_set uuid conv (conversations s)\<rparr>))"

definition getAllConversations :: "mem_storage \<Rightarrow> conversation list" where
  "getAllConversations s =
     js_sort (\<lambda>a b. createdAt b - createdAt a) (map_values (conversations s))"

definition deleteConversation :: "mem_storage \<Rightarrow> js_string \<Rightarrow> mem_storage" where
  "deleteConversation s ident =
     (let s1 = s\<lparr>conversations := map_delete ident (conversations s)\<rparr>;
          messagesToDelete =
            map fst (filter (\<lambda>e. conversationId (snd e) = Some ident) (map_entries (messages s1)))
      in s1\<lparr>messages := foldl (\<lambda>m messageId. map_delete messageId m) (messages s1) messagesToDelete\<rparr>)"

definition createMessage ::
  "mem_storage \<Rightarrow> insert_message \<Rightarrow> js_string \<Rightarrow> int \<Rightarrow> message \<times> mem_storage" where
  "createMessage s insertMessage uuid now =
     (let msg = \<lparr>id_msg = uuid,
                 conversationId = or_null (ins_conversationId insertMessage),
                 role = ins_role insertMessage,
                 content = ins_content insertMessage,
                 timestamp = now\<rparr>
      in (msg, s\<lparr>messages := map_set uuid msg (messages s)\<rparr>))"

definition getMessagesByConversation :: "mem_storage \<Rightarrow> js_string \<Rightarrow> message list" where
  "getMessagesByConversation s cid =
     js_sort (\<lambda>a b. timestamp a - timestamp b)
       (filter (\<lambda>m. conversationId m = Some cid) (map_values (messages s)))"

section \<open>The response generator\<close>

text \<open>
  What a \<open>throw\<close> carries: an instance of \<open>Error\<close> (of any subclass) with its name
  and message, or a value that is not an \<open>Error\<close>.
\<close>

datatype js_thrown = JsError (error_name: js_string) (error_message: js_string) | NonError


definition new_Error :: "js_string \<Rightarrow> js_thrown" where
  "new_Error m = JsError (str ''Error'') m"

record chat_message =
  cm_role :: js_string
  cm_content :: js_string

text \<open>
  The request of \<open>ai.models.generateContent\<close>: a content is \<open>{role, parts: [{text}]}\<close>.
  The provider is outside the program: a function from the request to what the call
  throws or to the \<open>text\<close> of its response, which may be undefined.
\<close>

record gen_content =
  gc_role :: js_string
  gc_text :: js_string

record gen_request =
  model :: js_string
  contents :: "gen_content list"
  systemInstruction :: "js_string option"

type_synonym provider = "gen_request \<Rightarrow> js_thrown + js_string option"

record process_env =
  GEMINI_API_KEY :: "js_string option"
  GOOGLE_API_KEY :: "js_string option"

definition persona :: js_string where
  "persona = str (''You are Cyber AI, an advanced AI assistant with a cyber-themed personality. ''
     @ [CHR 0x0A] @ ''        You are knowledgeable, helpful, and provide detailed responses. ''
     @ [CHR 0x0A] @ ''        You can assist with coding, creative tasks, analysis, and general questions.''
     @ [CHR 0x0A] @ ''        Maintain a professional yet engaging tone that matches your cyber AI theme.'')"

text \<open>The body of the \<open>try\<close> of \<open>generateChatResponse\<close>.\<close>

definition generateChatResponse_try ::
  "process_env \<Rightarrow> provider \<Rightarrow> js_string \<Rightarrow> chat_message list \<Rightarrow> js_thrown + js_string" where
  "generateChatResponse_try env ai msg conversationHistory =
     (if or_null (GEMINI_API_KEY env) = None \<and> or_null (GOOGLE_API_KEY env) = None
      then Inl (new_Error (str ''GEMINI_API_KEY environment variable is required''))
      else
        (let contents =
               map (\<lambda>m. \<lparr>gc_role = (if cm_role m = str ''assistant'' then str ''model''
                                      else str ''user''),
                          gc_text = cm_content m\<rparr>) conversationHistory
               @ [\<lparr>gc_role = str ''user'', gc_text = msg\<rparr>]
         in case ai \<lparr>model = str ''gemini-2.5-flash'', contents = contents,
                     systemInstruction = Some persona\<rparr> of
              Inl e \<Rightarrow> Inl e
            | Inr response_text \<Rightarrow>
                Inr (or_default response_text
                  (str ''I apologize, but I couldn't generate a response. Please try again.''))))"

text \<open>Its \<open>catch\<close>: what is thrown instead.\<close>

fun generateChatResponse_catch :: "js_thrown \<Rightarrow> js_thrown" where
  "generateChatResponse_catch (JsError n m) =
     (if str_includes m (str ''API_KEY'')
      then new_Error (str ''Invalid or missing API key. Please check your Gemini API configuration.'')
      else if str_includes m (str ''quota'')
      then new_Error (str ''API quota exceeded. Please try again later.'')
      else if str_includes m (str ''rate'')
      then new_Error (str ''Rate limit exceeded. Please wait a moment before sending another message.'')
      else new_Error (str ''Failed to generate AI response. Please try again.''))"
| "generateChatResponse_catch NonError =
     new_Error (str ''Failed to generate AI response. Please try again.'')"

definition generateChatResponse ::
  "process_env \<Rightarrow> provider \<Rightarrow> js_string \<Rightarrow> chat_message list \<Rightarrow> js_thrown + js_string" where
  "generateChatResponse env ai msg conversationHistory =
     (case generateChatResponse_try env ai msg conversationHistory of
        Inl e \<Rightarrow> Inl (generateChatResponse_catch e)
      | Inr r \<Rightarrow> Inr r)"

text \<open>
  The body of the \<open>try\<close> of \<open>generateConversationTitle\<close>; \<open>0x22\<close> is the double
  quote and \<open>0x27\<close> the single quote.
\<close>

definition title_request :: "js_string \<Rightarrow> gen_request" where
  "title_request firstMessage =
     \<lparr>model = str ''gemini-2.5-flash'',
      contents =
        [\<lparr>gc_role = str ''user'',
          gc_text = str ''Generate a short, descriptive title (max 50 characters) for a conversation that starts with: ''
                    @ [0x22] @ take 200 firstMessage @ [0x22]\<rparr>],
      systemInstruction = None\<rparr>"

definition generateConversationTitle_try :: "provider \<Rightarrow> js_string \<Rightarrow> js_thrown + js_string" where
  "generateConversationTitle_try ai firstMessage =
     (case ai (title_request firstMessage) of
        Inl e \<Rightarrow> Inl e
      | Inr response_text \<Rightarrow>
          (let title = or_default (map_option (take 50) response_text) (str ''New Conversation'')
           in Inr (trim (filter (\<lambda>c. c \<noteq> 0x27 \<and> c \<noteq> 0x22) title))))"

definition generateConversationTitle :: "provider \<Rightarrow> js_string \<Rightarrow> js_thrown + js_string" where
  "generateConversationTitle ai firstMessage =
     (case generateConversationTitle_try ai firstMessage of
        Inl e \<Rightarrow> Inr (str ''New Conversation'')
      | Inr t \<Rightarrow> Inr t)"

section \<open>The chat orchestrator (POST /api/chat)\<close>

text \<open>
  One request, handled from start to end with no other request in between. The schema
  \<open>chatRequestSchema\<close> is not part of the sources at hand: its \<open>parse\<close> is a parameter,
  from the request body to what it throws or to the parsed request. \<open>draws\<close> holds what
  \<open>randomUUID()\<close> and \<open>new Date()\<close> give to the three store calls.
\<close>

record chat_request =
  req_message :: js_string
  req_conversationId :: "js_string option"

record draws =
  conversation_uuid :: js_string
  conversation_now :: int
  user_uuid :: js_string
  user_now :: int
  assistant_uuid :: js_string
  assistant_now :: int

datatype json_body = ChatResponse (response: js_string) (res_conversationId: js_string)
  | ErrorBody (error: js_string)

record http_response =
  status :: nat
  body :: json_body

definition conversationHistory_of :: "mem_storage \<Rightarrow> js_string option \<Rightarrow> chat_message list" where
  "conversationHistory_of s cid =
     (case or_null cid of
        Some c \<Rightarrow> map (\<lambda>m. \<lparr>cm_role = role m, cm_content = content m\<rparr>) (getMessagesByConversation s c)
      | None \<Rightarrow> [])"

definition post_api_chat_try ::
  "('b \<Rightarrow> js_thrown + chat_request) \<Rightarrow> process_env \<Rightarrow> provider \<Rightarrow> draws \<Rightarrow> mem_storage \<Rightarrow> 'b
     \<Rightarrow> js_thrown + (http_response \<times> mem_storage)" where
  "post_api_chat_try parse env ai d s req_body =
     (case parse req_body of
        Inl e \<Rightarrow> Inl e
      | Inr req \<Rightarrow>
          (case generateChatResponse env ai (req_message req)
                  (conversationHistory_of s (req_conversationId req)) of
             Inl e \<Rightarrow> Inl e
           | Inr aiResponse \<Rightarrow>
               (case (case or_null (req_conversationId req) of
                        Some c \<Rightarrow> Inr (c, s)
                      | None \<Rightarrow>
                          (case generateConversationTitle ai (req_message req) of
                             Inl e \<Rightarrow> Inl e
                           | Inr t \<Rightarrow>
                               (let (conv, s1) = createConversation s \<lparr>ins_title = t\<rparr>
                                                   (conversation_uuid d) (conversation_now d)
                                in Inr (id_conv conv, s1)))) of
                  Inl e \<Rightarrow> Inl e
                | Inr (currentConversationId, s1) \<Rightarrow>
                    (let (um, s2) = createMessage s1
                                      \<lparr>ins_conversationId = Some currentConversationId,
                                       ins_role = str ''user'',
                                       ins_content = req_message req\<rparr>
                                      (user_uuid d) (user_now d);
                         (am, s3) = createMessage s2
                                      \<lparr>ins_conversationId = Some currentConversationId,
                                       ins_role = str ''assistant'',
                                       ins_content = aiResponse\<rparr>
                                      (assistant_uuid d) (assistant_now d)
                     in Inr (\<lparr>status = 200,
                              body = ChatResponse aiResponse currentConversationId\<rparr>, s3)))))"

fun post_api_chat_catch :: "js_thrown \<Rightarrow> http_response" where
  "post_api_chat_catch (JsError n m) = \<lparr>status = 400, body = ErrorBody m\<rparr>"
| "post_api_chat_catch NonError =
     \<lparr>status = 500,
      body = ErrorBody (str ''An unexpected error occurred while processing your request.'')\<rparr>"

text \<open>
  Everything that can throw in the \<open>try\<close> comes before the first write to the store, so
  the \<open>catch\<close> runs on the store as the request found it.
\<close>

definition post_api_chat ::
  "('b \<Rightarrow> js_thrown + chat_request) \<Rightarrow> process_env \<Rightarrow> provider \<Rightarrow> draws \<Rightarrow> mem_storage \<Rightarrow> 'b
     \<Rightarrow> http_response \<times> mem_storage" where
  "post_api_chat parse env ai d s req_body =
     (case post_api_chat_try parse env ai d s req_body of
        Inl e \<Rightarrow> (post_api_chat_catch e, s)
      | Inr r \<Rightarrow> r)"

text \<open>A store with four messages, two of them under one conversation with one timestamp.\<close>

definition example_message :: "string \<Rightarrow> string \<Rightarrow> int \<Rightarrow> message" where
  "example_message i c t =
     \<lparr>id_msg = str i, conversationId = Some (str c), role = str ''user'',
      content = str ''hi'', timestamp = t\<rparr>"

definition example_store :: mem_storage where
  "example_store =
     \<lparr>users = [],
      conversations =
        [(str ''c1'', \<lparr>id_conv = str ''c1'', title = str ''one'', createdAt = 2\<rparr>),
         (str ''c2'', \<lparr>id_conv = str ''c2'', title = str ''two'', createdAt = 7\<rparr>)],
      messages =
        [(str ''m1'', example_message ''m1'' ''c1'' 5),
         (str ''m2'', example_message ''m2'' ''c2'' 1),
         (str ''m3'', example_message ''m3'' ''c1'' 3),
         (str ''m4'', example_message ''m4'' ''c1'' 3)]\<rparr>"



text \<open>Inputs for running the handler: a parse, two environments, two providers, draws.\<close>

definition example_parse :: "chat_request \<Rightarrow> js_thrown + chat_request" where
  "example_parse b =
     (if req_message b = [] then Inl (JsError (str ''ZodError'') (str ''Required'')) else Inr b)"

definition example_env :: process_env where
  "example_env = \<lparr>GEMINI_API_KEY = Some (str ''key''), GOOGLE_API_KEY = None\<rparr>"

definition no_key_env :: process_env where
  "no_key_env = \<lparr>GEMINI_API_KEY = None, GOOGLE_API_KEY = Some []\<rparr>"

definition example_ai :: provider where
  "example_ai r =
     (if systemInstruction r = None then Inr (Some (str '' 'Greeting' ''))
      else Inr (Some (str ''Hello!'')))"

definition failing_ai :: provider where
  "failing_ai r = Inl (JsError (str ''ApiError'') (str ''quota exhausted''))"

definition example_draws :: draws where
  "example_draws =
     \<lparr>conversation_uuid = str ''c3'', conversation_now = 10,
      user_uuid = str ''m5'', user_now = 11,
      assistant_uuid = str ''m6'', assistant_now = 11\<rparr>"

definition example_request :: "js_string option \<Rightarrow> chat_request" where
  "example_request cid = \<lparr>req_message = str ''hi'', req_conversationId = cid\<rparr>"

text \<open>The clock set back before each of the two message writes.\<close>

definition backward_draws :: draws where
  "backward_draws =
     \<lparr>conversation_uuid = str ''c3'', conversation_now = 10,
      user_uuid = str ''m5'', user_now = 4,
      assistant_uuid = str ''m6'', assistant_now = 2\<rparr>"



section \<open>Sorting\<close>

lemma js_insert_insort_key:
  "js_insert (\<lambda>a b. f a - f b) x ys = insort_key f x ys"
  by (induction ys) auto

lemma js_sort_sort_key: "js_sort (\<lambda>a b. f a - f b) xs = sort_key f xs"
  by (induction xs) (simp_all add: js_sort_def js_insert_insort_key)

lemma js_sort_desc_sort_key:
  "js_sort (\<lambda>a b. f b - f a) xs = sort_key (\<lambda>a. - f a) xs"
proof -
  have "(\<lambda>a b. f b - f a) = (\<lambda>a b. (- f a) - (- f b))"
    by (intro ext) simp
  then show ?thesis
    using js_sort_sort_key [of "\<lambda>a. - f a" xs] by simp
qed

lemma sorted_wrt_sort_key:
  "sorted_wrt (\<lambda>a b. f a \<le> f b) (sort_key f xs)"
  using sorted_sort_key [of f xs] by (simp add: sorted_wrt_map)

section \<open>Maps\<close>

lemma map_set_fresh: "k \<notin> set (map_keys m) \<Longrightarrow> map_set k v m = m @ [(k, v)]"
  by (induction m) (auto simp: map_keys_def)

lemma set_fold_map_delete:
  "set (foldl (\<lambda>m k. map_delete k m) m ks) = {e \<in> set m. fst e \<notin> set ks}"
  by (induction ks arbitrary: m) (auto simp: map_delete_def)

lemma fold_map_delete_filter:
  "foldl (\<lambda>m k. map_delete k m) m ks = filter (\<lambda>e. fst e \<notin> set ks) m"
proof (induction ks arbitrary: m)
  case Nil
  show ?case by simp
next
  case (Cons k ks)
  have "filter (\<lambda>e. fst e \<notin> set ks) (filter (\<lambda>e. fst e \<noteq> k) m)
        = filter (\<lambda>e. fst e \<notin> set (k # ks)) m"
    by (induction m) auto
  with Cons show ?case by (simp add: map_delete_def)
qed

lemma filter_keys_distinct:
  assumes "distinct (map fst m)"
  shows "filter (\<lambda>e. fst e \<notin> fst ` {e \<in> set m. P (snd e)}) m = filter (\<lambda>e. \<not> P (snd e)) m"
proof (rule filter_cong [OF refl])
  fix e assume e: "e \<in> set m"
  show "(fst e \<notin> fst ` {e \<in> set m. P (snd e)}) = (\<not> P (snd e))"
  proof
    assume "fst e \<notin> fst ` {e \<in> set m. P (snd e)}"
    with e show "\<not> P (snd e)" by auto
  next
    assume n: "\<not> P (snd e)"
    show "fst e \<notin> fst ` {e \<in> set m. P (snd e)}"
    proof
      assume "fst e \<in> fst ` {e \<in> set m. P (snd e)}"
      then obtain e' where e': "e' \<in> set m" "P (snd e')" "fst e' = fst e" by auto
      from assms e e'(1) e'(3) have "e' = e"
        by (metis eq_key_imp_eq_value prod.collapse)
      with e'(2) n show False by simp
    qed
  qed
qed

lemma map_of_map_set: "map_of (map_set k v m) k = Some v"
  by (induction m) auto

lemma getMessagesByConversation_sort_key:
  "getMessagesByConversation s cid =
     sort_key timestamp (filter (\<lambda>m. conversationId m = Some cid) (map_values (messages s)))"
  by (simp add: getMessagesByConversation_def js_sort_sort_key)

lemma set_getMessagesByConversation:
  "set (getMessagesByConversation s cid) =
     {m \<in> set (map_values (messages s)). conversationId m = Some cid}"
  by (simp add: getMessagesByConversation_sort_key)

lemma getAllConversations_sort_key:
  "getAllConversations s = sort_key (\<lambda>c. - createdAt c) (map_values (conversations s))"
  by (simp add: getAllConversations_def js_sort_desc_sort_key)

section \<open>Reading the store\<close>

text \<open>
  C6. For every store and every id, \<open>getMessagesByConversation\<close> returns exactly the
  stored messages whose conversationId is that id (as a multiset: each as often as
  stored), in ascending order of timestamp, messages of equal timestamp in the order in
  which the map holds them (insertion order); when no stored message has that
  conversationId the result is the empty list. The function is total: there is no error
  result.
\<close>

theorem getMessagesByConversation_sorted_stable:
  "mset (getMessagesByConversation s cid)
     = mset (filter (\<lambda>m. conversationId m = Some cid) (map_values (messages s)))
   \<and> sorted_wrt (\<lambda>a b. timestamp a \<le> timestamp b) (getMessagesByConversation s cid)
   \<and> (\<forall>t. filter (\<lambda>m. timestamp m = t) (getMessagesByConversation s cid)
          = filter (\<lambda>m. timestamp m = t)
              (filter (\<lambda>m. conversationId m = Some cid) (map_values (messages s))))
   \<and> ((\<forall>m \<in> set (map_values (messages s)). conversationId m \<noteq> Some cid)
        \<longrightarrow> getMessagesByConversation s cid = [])"
proof (intro conjI allI impI)
  show "mset (getMessagesByConversation s cid)
     = mset (filter (\<lambda>m. conversationId m = Some cid) (map_values (messages s)))"
    by (simp add: getMessagesByConversation_sort_key)
  show "sorted_wrt (\<lambda>a b. timestamp a \<le> timestamp b) (getMessagesByConversation s cid)"
    unfolding getMessagesByConversation_sort_key by (rule sorted_wrt_sort_key)
  show "filter (\<lambda>m. timestamp m = t) (getMessagesByConversation s cid)
          = filter (\<lambda>m. timestamp m = t)
              (filter (\<lambda>m. conversationId m = Some cid) (map_values (messages s)))" for t
    unfolding getMessagesByConversation_sort_key by (rule sort_key_stable)
  assume "\<forall>m \<in> set (map_values (messages s)). conversationId m \<noteq> Some cid"
  then have "filter (\<lambda>m. conversationId m = Some cid) (map_values (messages s)) = []"
    by (simp add: filter_empty_conv)
  then show "getMessagesByConversation s cid = []"
    by (simp add: getMessagesByConversation_sort_key)
qed

theorem getMessagesByConversation_sorted_stable_witness:
  "filter (\<lambda>m. conversationId m = Some (str ''c9'')) (map_values (messages example_store)) = []
   \<and> getMessagesByConversation example_store (str ''c9'') = []
   \<and> sorted_wrt (\<lambda>a b. timestamp a \<le> timestamp b)
        (getMessagesByConversation example_store (str ''c1''))
   \<and> filter (\<lambda>m. timestamp m = 3) (getMessagesByConversation example_store (str ''c1''))
        = [example_message ''m3'' ''c1'' 3, example_message ''m4'' ''c1'' 3]"
proof -
  have h: "\<forall>m \<in> set (map_values (messages example_store)). conversationId m \<noteq> Some (str ''c9'')"
    by (simp add: example_store_def example_message_def map_values_def str_def)
  from getMessagesByConversation_sorted_stable [of example_store "str ''c9''"] h
  have e: "getMessagesByConversation example_store (str ''c9'') = []"
    by blast
  note t = getMessagesByConversation_sorted_stable [of example_store "str ''c1''"]
  from t have o: "sorted_wrt (\<lambda>a b. timestamp a \<le> timestamp b)
        (getMessagesByConversation example_store (str ''c1''))"
    by blast
  from t have "filter (\<lambda>m. timestamp m = 3) (getMessagesByConversation example_store (str ''c1''))
          = filter (\<lambda>m. timestamp m = 3)
              (filter (\<lambda>m. conversationId m = Some (str ''c1''))
                 (map_values (messages example_store)))"
    by blast
  also have "\<dots> = [example_message ''m3'' ''c1'' 3, example_message ''m4'' ''c1'' 3]"
    by (simp add: example_store_def example_message_def map_values_def str_def)
  finally have f: "filter (\<lambda>m. timestamp m = 3) (getMessagesByConversation example_store (str ''c1''))
        = [example_message ''m3'' ''c1'' 3, example_message ''m4'' ''c1'' 3]" .
  from h have "filter (\<lambda>m. conversationId m = Some (str ''c9''))
                 (map_values (messages example_store)) = []"
    by (simp add: filter_empty_conv)
  with e o f show ?thesis by blast
qed

text \<open>
  C7. For every store, whatever the order in which its conversations were inserted,
  \<open>getAllConversations\<close> returns all stored conversations, each exactly once per
  entry, in descending order of createdAt.
\<close>

theorem getAllConversations_newest_first:
  "mset (getAllConversations s) = mset (map_values (conversations s))
   \<and> sorted_wrt (\<lambda>a b. createdAt b \<le> createdAt a) (getAllConversations s)"
proof
  show "mset (getAllConversations s) = mset (map_values (conversations s))"
    by (simp add: getAllConversations_sort_key)
  have "sorted_wrt (\<lambda>a b. - createdAt a \<le> - createdAt b) (getAllConversations s)"
    unfolding getAllConversations_sort_key by (rule sorted_wrt_sort_key)
  then show "sorted_wrt (\<lambda>a b. createdAt b \<le> createdAt a) (getAllConversations s)"
    by simp
qed

theorem getAllConversations_newest_first_witness:
  "mset (getAllConversations example_store) = mset (map_values (conversations example_store))
   \<and> sorted_wrt (\<lambda>a b. createdAt b \<le> createdAt a) (getAllConversations example_store)
   \<and> map id_conv (getAllConversations example_store) = [str ''c2'', str ''c1'']"
proof -
  have "map id_conv (getAllConversations example_store) = [str ''c2'', str ''c1'']"
    by (simp add: getAllConversations_def js_sort_def example_store_def map_values_def)
  with getAllConversations_newest_first [of example_store] show ?thesis
    by blast
qed

section \<open>Deleting a conversation\<close>

lemma messages_deleteConversation:
  "messages (deleteConversation s ident) =
     filter (\<lambda>e. fst e \<notin> fst ` {e \<in> set (messages s). conversationId (snd e) = Some ident})
       (messages s)"
  by (simp add: deleteConversation_def Let_def map_entries_def fold_map_delete_filter)

lemma deleteConversation_no_reference:
  "e \<in> set (messages (deleteConversation s ident)) \<Longrightarrow> conversationId (snd e) \<noteq> Some ident"
  by (auto simp: messages_deleteConversation)

text \<open>
  C5. For every id, \<open>deleteConversation\<close> removes the conversation stored under that id
  and nothing else from the conversations (so it leaves them as they are when the id is
  not there), leaves the users alone, and removes messages only: afterwards no stored
  message has that conversationId and \<open>getMessagesByConversation\<close> of the id is empty.
  With unique message keys, the messages that remain are exactly those whose
  conversationId is not the id, in their old order. There is no error result.
\<close>

theorem deleteConversation_cascade:
  "conversations (deleteConversation s ident) = filter (\<lambda>e. fst e \<noteq> ident) (conversations s)
   \<and> ident \<notin> set (map_keys (conversations (deleteConversation s ident)))
   \<and> (ident \<notin> set (map_keys (conversations s))
        \<longrightarrow> conversations (deleteConversation s ident) = conversations s)
   \<and> users (deleteConversation s ident) = users s
   \<and> (\<forall>m \<in> set (map_values (messages (deleteConversation s ident))).
         conversationId m \<noteq> Some ident)
   \<and> getMessagesByConversation (deleteConversation s ident) ident = []
   \<and> (distinct (map_keys (messages s)) \<longrightarrow>
        messages (deleteConversation s ident)
          = filter (\<lambda>e. conversationId (snd e) \<noteq> Some ident) (messages s))"
proof (intro conjI impI)
  show c: "conversations (deleteConversation s ident)
             = filter (\<lambda>e. fst e \<noteq> ident) (conversations s)"
    by (simp add: deleteConversation_def Let_def map_delete_def)
  show "ident \<notin> set (map_keys (conversations (deleteConversation s ident)))"
    unfolding c by (auto simp: map_keys_def)
  show "users (deleteConversation s ident) = users s"
    by (simp add: deleteConversation_def Let_def)
  show n: "\<forall>m \<in> set (map_values (messages (deleteConversation s ident))).
         conversationId m \<noteq> Some ident"
    using deleteConversation_no_reference [of _ s ident] by (auto simp: map_values_def)
  then have "filter (\<lambda>m. conversationId m = Some ident)
               (map_values (messages (deleteConversation s ident))) = []"
    by (simp add: filter_empty_conv)
  then show "getMessagesByConversation (deleteConversation s ident) ident = []"
    by (simp add: getMessagesByConversation_sort_key)
next
  assume "ident \<notin> set (map_keys (conversations s))"
  then have "filter (\<lambda>e. fst e \<noteq> ident) (conversations s) = conversations s"
    by (auto simp: map_keys_def filter_id_conv)
  then show "conversations (deleteConversation s ident) = conversations s"
    by (simp add: deleteConversation_def Let_def map_delete_def)
next
  assume "distinct (map_keys (messages s))"
  then have "distinct (map fst (messages s))" by (simp add: map_keys_def)
  from filter_keys_distinct [OF this, of "\<lambda>m. conversationId m = Some ident"]
  show "messages (deleteConversation s ident)
          = filter (\<lambda>e. conversationId (snd e) \<noteq> Some ident) (messages s)"
    by (simp add: messages_deleteConversation)
qed

theorem deleteConversation_cascade_witness:
  "distinct (map_keys (messages example_store))
   \<and> map_keys (conversations (deleteConversation example_store (str ''c1''))) = [str ''c2'']
   \<and> map_keys (messages (deleteConversation example_store (str ''c1''))) = [str ''m2'']
   \<and> getMessagesByConversation (deleteConversation example_store (str ''c1'')) (str ''c1'') = []
   \<and> str ''c9'' \<notin> set (map_keys (conversations example_store))
   \<and> conversations (deleteConversation example_store (str ''c9'')) = conversations example_store"
proof -
  note t = deleteConversation_cascade [of example_store "str ''c1''"]
  have d: "distinct (map_keys (messages example_store))"
    by (simp add: example_store_def map_keys_def str_def)
  from t have "conversations (deleteConversation example_store (str ''c1''))
                 = filter (\<lambda>e. fst e \<noteq> str ''c1'') (conversations example_store)"
    by blast
  then have c: "map_keys (conversations (deleteConversation example_store (str ''c1''))) = [str ''c2'']"
    by (simp add: example_store_def map_keys_def str_def)
  from t d have "messages (deleteConversation example_store (str ''c1''))
          = filter (\<lambda>e. conversationId (snd e) \<noteq> Some (str ''c1'')) (messages example_store)"
    by blast
  then have m: "map_keys (messages (deleteConversation example_store (str ''c1''))) = [str ''m2'']"
    by (simp add: example_store_def example_message_def map_keys_def str_def)
  from t have g: "getMessagesByConversation (deleteConversation example_store (str ''c1'')) (str ''c1'') = []"
    by blast
  have n: "str ''c9'' \<notin> set (map_keys (conversations example_store))"
    by (simp add: example_store_def map_keys_def str_def)
  with deleteConversation_cascade [of example_store "str ''c9''"]
  have "conversations (deleteConversation example_store (str ''c9'')) = conversations example_store"
    by blast
  with d c m g n show ?thesis by blast
qed

section \<open>Creating a message\<close>

text \<open>
  C10. \<open>createMessage\<close> stores \<open>null\<close> as the conversationId of a message whose
  conversationId is falsy: absent or the empty string. The message it returns is the one
  stored under the new id, and \<open>getMessagesByConversation\<close> of the resulting store does
  not return it for any id, the empty string included.
\<close>

theorem createMessage_falsy_conversationId:
  "ins_conversationId im \<in> {None, Some []} \<Longrightarrow>
   conversationId (fst (createMessage s im uuid now)) = None
   \<and> map_of (messages (snd (createMessage s im uuid now))) uuid
       = Some (fst (createMessage s im uuid now))
   \<and> (\<forall>cid. fst (createMessage s im uuid now)
         \<notin> set (getMessagesByConversation (snd (createMessage s im uuid now)) cid))"
  by (auto simp: createMessage_def Let_def map_of_map_set set_getMessagesByConversation)

theorem createMessage_falsy_conversationId_witness:
  "ins_conversationId \<lparr>ins_conversationId = Some [], ins_role = str ''user'',
                       ins_content = str ''hi''\<rparr> \<in> {None, Some []}
   \<and> conversationId (fst (createMessage example_store
         \<lparr>ins_conversationId = Some [], ins_role = str ''user'', ins_content = str ''hi''\<rparr>
         (str ''m5'') 9)) = None
   \<and> fst (createMessage example_store
         \<lparr>ins_conversationId = Some [], ins_role = str ''user'', ins_content = str ''hi''\<rparr>
         (str ''m5'') 9)
       \<notin> set (getMessagesByConversation (snd (createMessage example_store
         \<lparr>ins_conversationId = Some [], ins_role = str ''user'', ins_content = str ''hi''\<rparr>
         (str ''m5'') 9)) [])"
proof -
  have h: "ins_conversationId \<lparr>ins_conversationId = Some [], ins_role = str ''user'',
                       ins_content = str ''hi''\<rparr> \<in> {None, Some []}"
    by simp
  from createMessage_falsy_conversationId [OF h, of example_store "str ''m5''" 9] h
  show ?thesis by blast
qed

section \<open>The handler, step by step\<close>

lemma default_title_clean:
  "trim (filter (\<lambda>c. c \<noteq> 0x27 \<and> c \<noteq> 0x22) (str ''New Conversation'')) = str ''New Conversation''"
  by (simp add: trim_def str_def is_js_whitespace_def)

lemma generateConversationTitle_returns: "\<exists>t. generateConversationTitle ai firstMessage = Inr t"
  by (simp add: generateConversationTitle_def split: sum.splits)

lemma insort_key_snoc:
  "f x \<le> f y \<Longrightarrow> insort_key f x (zs @ [y]) = insort_key f x zs @ [y]"
  by (induction zs) auto

lemma sort_key_snoc:
  "\<forall>x \<in> set xs. f x \<le> f y \<Longrightarrow> sort_key f (xs @ [y]) = sort_key f xs @ [y]"
proof (induction xs)
  case Nil
  show ?case by simp
next
  case (Cons x xs)
  then have "sort_key f (xs @ [y]) = sort_key f xs @ [y]" by simp
  moreover from Cons.prems have "f x \<le> f y" by simp
  ultimately show ?case by (simp add: insort_key_snoc)
qed

lemma sort_key_snoc2:
  assumes "\<forall>x \<in> set xs. f x \<le> f y" and "f y \<le> f z"
  shows "sort_key f (xs @ [y, z]) = sort_key f xs @ [y, z]"
proof -
  have "\<forall>x \<in> set (xs @ [y]). f x \<le> f z"
    using assms by auto
  from sort_key_snoc [OF this] have "sort_key f ((xs @ [y]) @ [z]) = sort_key f (xs @ [y]) @ [z]" .
  with sort_key_snoc [OF assms(1)] show ?thesis by simp
qed

lemma sort_key_insort_key_append:
  "sort_key f (insort_key f x zs @ ys) = insort_key f x (sort_key f (zs @ ys))"
proof (induction zs)
  case Nil
  show ?case by simp
next
  case (Cons z zs)
  show ?case
  proof (cases "f x \<le> f z")
    case True
    then show ?thesis by simp
  next
    case False
    then have "f x \<noteq> f z" by auto
    then have "insort_key f z (insort_key f x (sort_key f (zs @ ys)))
                 = insort_key f x (insort_key f z (sort_key f (zs @ ys)))"
      by (rule insort_key_left_comm)
    with False Cons show ?thesis by simp
  qed
qed

lemma sort_key_sort_key_append:
  "sort_key f (sort_key f xs @ ys) = sort_key f (xs @ ys)"
  by (induction xs) (simp_all add: sort_key_insort_key_append)

lemma sorted_snoc2_iff:
  "sorted_wrt (\<lambda>a b. f a \<le> f b) (xs @ [y, z])
     \<longleftrightarrow> sorted_wrt (\<lambda>a b. f a \<le> f b) xs \<and> (\<forall>x \<in> set xs. f x \<le> f y) \<and> f y \<le> (f z :: int)"
  by (auto simp: sorted_wrt_append)

lemma createMessage_fresh:
  "uuid \<notin> set (map_keys (messages s)) \<Longrightarrow>
   createMessage s im uuid now =
     (\<lparr>id_msg = uuid, conversationId = or_null (ins_conversationId im), role = ins_role im,
       content = ins_content im, timestamp = now\<rparr>,
      s\<lparr>messages := messages s @
          [(uuid, \<lparr>id_msg = uuid, conversationId = or_null (ins_conversationId im),
                   role = ins_role im, content = ins_content im, timestamp = now\<rparr>)]\<rparr>)"
  by (simp add: createMessage_def Let_def map_set_fresh)

lemma createConversation_fresh:
  "uuid \<notin> set (map_keys (conversations s)) \<Longrightarrow>
   createConversation s ic uuid now =
     (\<lparr>id_conv = uuid, title = ins_title ic, createdAt = now\<rparr>,
      s\<lparr>conversations := conversations s @
          [(uuid, \<lparr>id_conv = uuid, title = ins_title ic, createdAt = now\<rparr>)]\<rparr>)"
  by (simp add: createConversation_def Let_def map_set_fresh)

lemma post_api_chat_new:
  assumes "parse req_body = Inr req"
    and "or_null (req_conversationId req) = None"
    and "generateChatResponse env ai (req_message req) [] = Inr aiResponse"
    and "generateConversationTitle ai (req_message req) = Inr t"
    and "conversation_uuid d \<noteq> []"
    and "conversation_uuid d \<notin> set (map_keys (conversations s))"
    and "user_uuid d \<notin> set (map_keys (messages s))"
    and "assistant_uuid d \<notin> set (map_keys (messages s))"
    and "user_uuid d \<noteq> assistant_uuid d"
  shows "post_api_chat parse env ai d s req_body =
     (\<lparr>status = 200, body = ChatResponse aiResponse (conversation_uuid d)\<rparr>,
      s\<lparr>conversations := conversations s @
           [(conversation_uuid d,
             \<lparr>id_conv = conversation_uuid d, title = t, createdAt = conversation_now d\<rparr>)],
        messages := messages s @
           [(user_uuid d,
             \<lparr>id_msg = user_uuid d, conversationId = Some (conversation_uuid d),
              role = str ''user'', content = req_message req, timestamp = user_now d\<rparr>),
            (assistant_uuid d,
             \<lparr>id_msg = assistant_uuid d, conversationId = Some (conversation_uuid d),
              role = str ''assistant'', content = aiResponse, timestamp = assistant_now d\<rparr>)]\<rparr>)"
  using assms
  by (simp add: post_api_chat_def post_api_chat_try_def conversationHistory_of_def
      createConversation_fresh createMessage_fresh map_keys_def)

lemma post_api_chat_existing:
  assumes "parse req_body = Inr req"
    and "req_conversationId req = Some X" and "X \<noteq> []"
    and "generateChatResponse env ai (req_message req) (conversationHistory_of s (Some X))
           = Inr aiResponse"
    and "user_uuid d \<notin> set (map_keys (messages s))"
    and "assistant_uuid d \<notin> set (map_keys (messages s))"
    and "user_uuid d \<noteq> assistant_uuid d"
  shows "post_api_chat parse env ai d s req_body =
     (\<lparr>status = 200, body = ChatResponse aiResponse X\<rparr>,
      s\<lparr>messages := messages s @
           [(user_uuid d,
             \<lparr>id_msg = user_uuid d, conversationId = Some X,
              role = str ''user'', content = req_message req, timestamp = user_now d\<rparr>),
            (assistant_uuid d,
             \<lparr>id_msg = assistant_uuid d, conversationId = Some X,
              role = str ''assistant'', content = aiResponse, timestamp = assistant_now d\<rparr>)]\<rparr>)"
  using assms
  by (simp add: post_api_chat_def post_api_chat_try_def
      createMessage_fresh map_keys_def)

lemma no_credential_message:
  "generateChatResponse_catch (new_Error (str ''GEMINI_API_KEY environment variable is required''))
   = new_Error (str ''Invalid or missing API key. Please check your Gemini API configuration.'')"
  by (simp add: new_Error_def str_def)

lemma generateChatResponse_catch_new_Error: "\<exists>m. generateChatResponse_catch a = new_Error m"
  by (cases a) auto

lemma generateChatResponse_throws:
  "generateChatResponse env ai msg h = Inl e \<Longrightarrow> \<exists>m. e = new_Error m"
  using generateChatResponse_catch_new_Error
  by (cases "generateChatResponse_try env ai msg h") (auto simp: generateChatResponse_def)

lemma post_api_chat_failure:
  assumes "parse req_body = Inr req"
    and "generateChatResponse env ai (req_message req)
           (conversationHistory_of s (req_conversationId req)) = Inl e"
  shows "post_api_chat parse env ai d s req_body = (post_api_chat_catch e, s)"
  using assms by (simp add: post_api_chat_def post_api_chat_try_def)

lemma post_api_chat_not_200:
  "status (fst (post_api_chat parse env ai d s req_body)) \<noteq> 200 \<Longrightarrow>
   snd (post_api_chat parse env ai d s req_body) = s"
  by (auto simp: post_api_chat_def post_api_chat_try_def Let_def split: sum.splits option.splits prod.splits)


lemma values_append: "map_values (m @ n) = map_values m @ map_values n"
  by (simp add: map_values_def)

section \<open>A turn that opens a conversation\<close>

text \<open>
  C1. A valid request (the parse succeeds) without a conversationId, for which
  \<open>generateChatResponse\<close> returns, when \<open>randomUUID()\<close> gives a non-empty id not yet
  used for a conversation and two different ids not yet used for a message: the handler
  answers 200 with the generated text and the new conversation's id; the store gains
  exactly one conversation, under that id and with the generated title, and exactly two
  messages under that conversation's id, the user's first and the assistant's second;
  nothing else changes. When the clock does not run backwards between the two writes and
  no message carried that id before, \<open>getMessagesByConversation\<close> of the new id is
  these two messages in that order.
\<close>

theorem post_api_chat_new_conversation:
  assumes "parse req_body = Inr req"
    and "or_null (req_conversationId req) = None"
    and "generateChatResponse env ai (req_message req) [] = Inr aiResponse"
    and "conversation_uuid d \<noteq> []"
    and "conversation_uuid d \<notin> set (map_keys (conversations s))"
    and "user_uuid d \<notin> set (map_keys (messages s))"
    and "assistant_uuid d \<notin> set (map_keys (messages s))"
    and "user_uuid d \<noteq> assistant_uuid d"
  shows "\<exists>t um am.
      generateConversationTitle ai (req_message req) = Inr t
    \<and> um = \<lparr>id_msg = user_uuid d, conversationId = Some (conversation_uuid d),
             role = str ''user'', content = req_message req, timestamp = user_now d\<rparr>
    \<and> am = \<lparr>id_msg = assistant_uuid d, conversationId = Some (conversation_uuid d),
             role = str ''assistant'', content = aiResponse, timestamp = assistant_now d\<rparr>
    \<and> post_api_chat parse env ai d s req_body =
        (\<lparr>status = 200, body = ChatResponse aiResponse (conversation_uuid d)\<rparr>,
         s\<lparr>conversations := conversations s @
              [(conversation_uuid d,
                \<lparr>id_conv = conversation_uuid d, title = t, createdAt = conversation_now d\<rparr>)],
           messages := messages s @ [(user_uuid d, um), (assistant_uuid d, am)]\<rparr>)
    \<and> (user_now d \<le> assistant_now d
        \<and> (\<forall>m \<in> set (map_values (messages s)). conversationId m \<noteq> Some (conversation_uuid d))
       \<longrightarrow> getMessagesByConversation (snd (post_api_chat parse env ai d s req_body))
             (conversation_uuid d) = [um, am])"
proof -
  obtain t where t: "generateConversationTitle ai (req_message req) = Inr t"
    using generateConversationTitle_returns by blast
  define um where "um = \<lparr>id_msg = user_uuid d, conversationId = Some (conversation_uuid d),
             role = str ''user'', content = req_message req, timestamp = user_now d\<rparr>"
  define am where "am = \<lparr>id_msg = assistant_uuid d, conversationId = Some (conversation_uuid d),
             role = str ''assistant'', content = aiResponse, timestamp = assistant_now d\<rparr>"
  have r: "post_api_chat parse env ai d s req_body =
        (\<lparr>status = 200, body = ChatResponse aiResponse (conversation_uuid d)\<rparr>,
         s\<lparr>conversations := conversations s @
              [(conversation_uuid d,
                \<lparr>id_conv = conversation_uuid d, title = t, createdAt = conversation_now d\<rparr>)],
           messages := messages s @ [(user_uuid d, um), (assistant_uuid d, am)]\<rparr>)"
    unfolding um_def am_def
    using assms t
    by (intro post_api_chat_new [where parse = parse and req = req and t = t]) simp_all
  have g: "getMessagesByConversation (snd (post_api_chat parse env ai d s req_body))
             (conversation_uuid d) = [um, am]"
    if "user_now d \<le> assistant_now d"
      and "\<forall>m \<in> set (map_values (messages s)). conversationId m \<noteq> Some (conversation_uuid d)"
  proof -
    from that(2) have "filter (\<lambda>m. conversationId m = Some (conversation_uuid d))
                      (map_values (messages s)) = []"
      by (simp add: filter_empty_conv)
    then have "filter (\<lambda>m. conversationId m = Some (conversation_uuid d))
                 (map_values (messages s @ [(user_uuid d, um), (assistant_uuid d, am)])) = [um, am]"
      by (simp add: values_append) (simp add: map_values_def um_def am_def)
    moreover have "sort_key timestamp [um, am] = [um, am]"
      using that(1) by (simp add: um_def am_def)
    ultimately show ?thesis
      by (simp add: r getMessagesByConversation_sort_key)
  qed
  from t r g um_def am_def show ?thesis by blast
qed

theorem post_api_chat_new_conversation_witness:
  "fst (post_api_chat example_parse example_env example_ai example_draws example_store
          (example_request None))
     = \<lparr>status = 200, body = ChatResponse (str ''Hello!'') (str ''c3'')\<rparr>
   \<and> map (\<lambda>e. (fst e, title (snd e)))
        (conversations (snd (post_api_chat example_parse example_env example_ai example_draws
           example_store (example_request None))))
     = [(str ''c1'', str ''one''), (str ''c2'', str ''two''), (str ''c3'', str ''Greeting'')]
   \<and> map_keys (messages (snd (post_api_chat example_parse example_env example_ai example_draws
        example_store (example_request None))))
     = [str ''m1'', str ''m2'', str ''m3'', str ''m4'', str ''m5'', str ''m6'']
   \<and> map id_msg (getMessagesByConversation (snd (post_api_chat example_parse example_env
        example_ai example_draws example_store (example_request None))) (str ''c3''))
     = [str ''m5'', str ''m6'']"
proof -
  have h1: "example_parse (example_request None) = Inr (example_request None)"
    by (simp add: example_parse_def example_request_def str_def)
  have h2: "or_null (req_conversationId (example_request None)) = None"
    by (simp add: example_request_def)
  have h3: "generateChatResponse example_env example_ai (req_message (example_request None)) []
              = Inr (str ''Hello!'')"
    by (simp add: generateChatResponse_def generateChatResponse_try_def example_env_def
        example_ai_def str_def)
  have h4: "conversation_uuid example_draws \<noteq> []"
    by (simp add: example_draws_def str_def)
  have h5: "conversation_uuid example_draws \<notin> set (map_keys (conversations example_store))"
    by (simp add: example_draws_def example_store_def map_keys_def str_def)
  have h6: "user_uuid example_draws \<notin> set (map_keys (messages example_store))"
    by (simp add: example_draws_def example_store_def map_keys_def str_def)
  have h7: "assistant_uuid example_draws \<notin> set (map_keys (messages example_store))"
    by (simp add: example_draws_def example_store_def map_keys_def str_def)
  have h8: "user_uuid example_draws \<noteq> assistant_uuid example_draws"
    by (simp add: example_draws_def str_def)
  have t: "generateConversationTitle example_ai (req_message (example_request None))
             = Inr (str ''Greeting'')"
    by (simp add: generateConversationTitle_def generateConversationTitle_try_def
        example_ai_def title_request_def trim_def is_js_whitespace_def str_def)
  have c: "user_now example_draws \<le> assistant_now example_draws
       \<and> (\<forall>m \<in> set (map_values (messages example_store)).
             conversationId m \<noteq> Some (conversation_uuid example_draws))"
    by (simp add: example_draws_def example_store_def example_message_def map_values_def
        str_def)
  from post_api_chat_new_conversation [of example_parse, OF h1 h2 h3 h4 h5 h6 h7 h8] t c
  show ?thesis
    by (auto simp: example_draws_def example_store_def map_keys_def example_request_def)
qed

section \<open>A turn in a conversation that exists\<close>

text \<open>
  C3, as stated, fails: \<open>getMessagesByConversation\<close> orders by timestamp, and the
  timestamps are readings of the wall clock. In the example store, conversation c1 holds
  m3 and m4 (timestamp 3) and m1 (timestamp 5). A valid request for c1 whose generation
  succeeds, handled while the clock reads 4 and then 2, stores m5 and m6 after the old
  messages, but \<open>getMessagesByConversation\<close> of c1 then returns m6, m3, m4, m5, m1: the
  old messages do not all precede the new ones, and the assistant's message comes before
  the user's.
\<close>

theorem post_api_chat_clock_set_back:
  "example_parse (example_request (Some (str ''c1''))) = Inr (example_request (Some (str ''c1'')))
   \<and> str ''c1'' \<in> set (map_keys (conversations example_store))
   \<and> fst (post_api_chat example_parse example_env example_ai backward_draws example_store
          (example_request (Some (str ''c1''))))
       = \<lparr>status = 200, body = ChatResponse (str ''Hello!'') (str ''c1'')\<rparr>
   \<and> map_keys (messages (snd (post_api_chat example_parse example_env example_ai
          backward_draws example_store (example_request (Some (str ''c1''))))))
       = [str ''m1'', str ''m2'', str ''m3'', str ''m4'', str ''m5'', str ''m6'']
   \<and> map id_msg (getMessagesByConversation example_store (str ''c1''))
       = [str ''m3'', str ''m4'', str ''m1'']
   \<and> map id_msg (getMessagesByConversation (snd (post_api_chat example_parse example_env
          example_ai backward_draws example_store (example_request (Some (str ''c1'')))))
          (str ''c1''))
       = [str ''m6'', str ''m3'', str ''m4'', str ''m5'', str ''m1'']"
proof -
  have h1: "example_parse (example_request (Some (str ''c1'')))
              = Inr (example_request (Some (str ''c1'')))"
    by (simp add: example_parse_def example_request_def str_def)
  have h2: "req_conversationId (example_request (Some (str ''c1''))) = Some (str ''c1'')"
    by (simp add: example_request_def)
  have h3: "str ''c1'' \<in> set (map_keys (conversations example_store))"
    by (simp add: example_store_def map_keys_def)
  have h4: "str ''c1'' \<noteq> []"
    by (simp add: str_def)
  have h5: "generateChatResponse example_env example_ai
              (req_message (example_request (Some (str ''c1''))))
              (conversationHistory_of example_store (Some (str ''c1''))) = Inr (str ''Hello!'')"
    by (simp add: generateChatResponse_def generateChatResponse_try_def example_env_def
        example_ai_def str_def)
  have h6: "user_uuid backward_draws \<notin> set (map_keys (messages example_store))"
    by (simp add: backward_draws_def example_store_def map_keys_def str_def)
  have h7: "assistant_uuid backward_draws \<notin> set (map_keys (messages example_store))"
    by (simp add: backward_draws_def example_store_def map_keys_def str_def)
  have h8: "user_uuid backward_draws \<noteq> assistant_uuid backward_draws"
    by (simp add: backward_draws_def str_def)
  note r = post_api_chat_existing
             [where parse = example_parse and req = "example_request (Some (str ''c1''))"
                and req_body = "example_request (Some (str ''c1''))" and d = backward_draws
                and s = example_store, OF h1 h2 h4 h5 h6 h7 h8]
  have old: "map id_msg (getMessagesByConversation example_store (str ''c1''))
       = [str ''m3'', str ''m4'', str ''m1'']"
    by (simp add: getMessagesByConversation_def js_sort_def example_store_def
        example_message_def map_values_def str_def)
  have new: "map id_msg (getMessagesByConversation (snd (post_api_chat example_parse example_env
          example_ai backward_draws example_store (example_request (Some (str ''c1'')))))
          (str ''c1''))
       = [str ''m6'', str ''m3'', str ''m4'', str ''m5'', str ''m1'']"
    unfolding r
    by (simp add: getMessagesByConversation_def js_sort_def example_store_def
        example_message_def backward_draws_def map_values_def str_def)
  have keys: "map_keys (messages (snd (post_api_chat example_parse example_env example_ai
          backward_draws example_store (example_request (Some (str ''c1''))))))
       = [str ''m1'', str ''m2'', str ''m3'', str ''m4'', str ''m5'', str ''m6'']"
    unfolding r
    by (simp add: example_store_def backward_draws_def map_keys_def)
  from h1 h3 r old new keys show ?thesis by simp
qed

text \<open>
  C3, amended. A valid request with conversationId X, where a conversation is stored
  under X (so X, made by \<open>randomUUID()\<close>, is not empty), for which
  \<open>generateChatResponse\<close> returns on the history of X, when \<open>randomUUID()\<close> gives two
  different ids not yet used for a message: the handler answers 200 with the generated
  text and X; the conversations are as before; the stored messages are the old ones,
  unchanged and in their old order, followed by exactly two new ones under X, the user's
  and then the assistant's. \<open>getMessagesByConversation\<close> of X afterwards is its old
  result with the two new messages sorted into it by timestamp (after the messages of the
  same timestamp); it is the old result followed by the user's and the assistant's
  message exactly when no message already under X has a timestamp later than the user
  message's and the user message's timestamp is not later than the assistant's.
\<close>

theorem post_api_chat_existing_conversation:
  assumes "parse req_body = Inr req"
    and "req_conversationId req = Some X"
    and "X \<in> set (map_keys (conversations s))"
    and "X \<noteq> []"
    and "generateChatResponse env ai (req_message req) (conversationHistory_of s (Some X))
           = Inr aiResponse"
    and "user_uuid d \<notin> set (map_keys (messages s))"
    and "assistant_uuid d \<notin> set (map_keys (messages s))"
    and "user_uuid d \<noteq> assistant_uuid d"
  shows "\<exists>um am.
      um = \<lparr>id_msg = user_uuid d, conversationId = Some X,
             role = str ''user'', content = req_message req, timestamp = user_now d\<rparr>
    \<and> am = \<lparr>id_msg = assistant_uuid d, conversationId = Some X,
             role = str ''assistant'', content = aiResponse, timestamp = assistant_now d\<rparr>
    \<and> post_api_chat parse env ai d s req_body =
        (\<lparr>status = 200, body = ChatResponse aiResponse X\<rparr>,
         s\<lparr>messages := messages s @ [(user_uuid d, um), (assistant_uuid d, am)]\<rparr>)
    \<and> conversations (snd (post_api_chat parse env ai d s req_body)) = conversations s
    \<and> getMessagesByConversation (snd (post_api_chat parse env ai d s req_body)) X
        = js_sort (\<lambda>a b. timestamp a - timestamp b) (getMessagesByConversation s X @ [um, am])
    \<and> (getMessagesByConversation (snd (post_api_chat parse env ai d s req_body)) X
          = getMessagesByConversation s X @ [um, am]
        \<longleftrightarrow> (\<forall>m \<in> set (getMessagesByConversation s X). timestamp m \<le> user_now d)
            \<and> user_now d \<le> assistant_now d)"
proof -
  define um where "um = \<lparr>id_msg = user_uuid d, conversationId = Some X,
             role = str ''user'', content = req_message req, timestamp = user_now d\<rparr>"
  define am where "am = \<lparr>id_msg = assistant_uuid d, conversationId = Some X,
             role = str ''assistant'', content = aiResponse, timestamp = assistant_now d\<rparr>"
  let ?s' = "snd (post_api_chat parse env ai d s req_body)"
  let ?old = "filter (\<lambda>m. conversationId m = Some X) (map_values (messages s))"
  have r: "post_api_chat parse env ai d s req_body =
        (\<lparr>status = 200, body = ChatResponse aiResponse X\<rparr>,
         s\<lparr>messages := messages s @ [(user_uuid d, um), (assistant_uuid d, am)]\<rparr>)"
    unfolding um_def am_def
    using assms
    by (intro post_api_chat_existing [where parse = parse and req = req]) simp_all
  then have c: "conversations ?s' = conversations s"
    by simp
  have f: "filter (\<lambda>m. conversationId m = Some X)
            (map_values (messages s @ [(user_uuid d, um), (assistant_uuid d, am)]))
          = ?old @ [um, am]"
    by (simp add: values_append) (simp add: map_values_def um_def am_def)
  have e: "getMessagesByConversation ?s' X
             = sort_key timestamp (getMessagesByConversation s X @ [um, am])"
    by (simp add: r f getMessagesByConversation_sort_key sort_key_sort_key_append)
  then have j: "getMessagesByConversation ?s' X
        = js_sort (\<lambda>a b. timestamp a - timestamp b) (getMessagesByConversation s X @ [um, am])"
    by (simp add: js_sort_sort_key)
  have g: "getMessagesByConversation ?s' X = getMessagesByConversation s X @ [um, am]"
    if "\<forall>m \<in> set (getMessagesByConversation s X). timestamp m \<le> user_now d"
      and "user_now d \<le> assistant_now d"
  proof -
    have "\<forall>m \<in> set ?old. timestamp m \<le> timestamp um"
      using that(1) by (simp add: set_getMessagesByConversation um_def)
    moreover have "timestamp um \<le> timestamp am"
      using that(2) by (simp add: um_def am_def)
    ultimately show ?thesis
      by (simp add: r f getMessagesByConversation_sort_key sort_key_snoc2)
  qed
  have k: "(\<forall>m \<in> set (getMessagesByConversation s X). timestamp m \<le> user_now d)
            \<and> user_now d \<le> assistant_now d"
    if "getMessagesByConversation ?s' X = getMessagesByConversation s X @ [um, am]"
  proof -
    have "sorted_wrt (\<lambda>a b. timestamp a \<le> timestamp b) (getMessagesByConversation ?s' X)"
      unfolding getMessagesByConversation_sort_key by (rule sorted_wrt_sort_key)
    with that have "sorted_wrt (\<lambda>a b. timestamp a \<le> timestamp b)
                      (getMessagesByConversation s X @ [um, am])"
      by simp
    then show ?thesis
      by (simp add: sorted_snoc2_iff um_def am_def)
  qed
  from g k have "getMessagesByConversation ?s' X = getMessagesByConversation s X @ [um, am]
        \<longleftrightarrow> (\<forall>m \<in> set (getMessagesByConversation s X). timestamp m \<le> user_now d)
            \<and> user_now d \<le> assistant_now d"
    by blast
  with r c j um_def am_def show ?thesis by blast
qed

theorem post_api_chat_existing_conversation_witness:
  "fst (post_api_chat example_parse example_env example_ai example_draws example_store
          (example_request (Some (str ''c1''))))
     = \<lparr>status = 200, body = ChatResponse (str ''Hello!'') (str ''c1'')\<rparr>
   \<and> conversations (snd (post_api_chat example_parse example_env example_ai example_draws
        example_store (example_request (Some (str ''c1''))))) = conversations example_store
   \<and> map id_msg (getMessagesByConversation (snd (post_api_chat example_parse example_env
        example_ai example_draws example_store (example_request (Some (str ''c1'')))))
        (str ''c1''))
     = [str ''m3'', str ''m4'', str ''m1'', str ''m5'', str ''m6'']"
proof -
  have h1: "example_parse (example_request (Some (str ''c1'')))
              = Inr (example_request (Some (str ''c1'')))"
    by (simp add: example_parse_def example_request_def str_def)
  have h2: "req_conversationId (example_request (Some (str ''c1''))) = Some (str ''c1'')"
    by (simp add: example_request_def)
  have h3: "str ''c1'' \<in> set (map_keys (conversations example_store))"
    by (simp add: example_store_def map_keys_def)
  have h4: "str ''c1'' \<noteq> []"
    by (simp add: str_def)
  have h5: "generateChatResponse example_env example_ai
              (req_message (example_request (Some (str ''c1''))))
              (conversationHistory_of example_store (Some (str ''c1''))) = Inr (str ''Hello!'')"
    by (simp add: generateChatResponse_def generateChatResponse_try_def example_env_def
        example_ai_def str_def)
  have h6: "user_uuid example_draws \<notin> set (map_keys (messages example_store))"
    by (simp add: example_draws_def example_store_def map_keys_def str_def)
  have h7: "assistant_uuid example_draws \<notin> set (map_keys (messages example_store))"
    by (simp add: example_draws_def example_store_def map_keys_def str_def)
  have h8: "user_uuid example_draws \<noteq> assistant_uuid example_draws"
    by (simp add: example_draws_def str_def)
  have old: "getMessagesByConversation example_store (str ''c1'')
       = [example_message ''m3'' ''c1'' 3, example_message ''m4'' ''c1'' 3,
          example_message ''m1'' ''c1'' 5]"
    by (simp add: getMessagesByConversation_def js_sort_def example_store_def
        example_message_def map_values_def str_def)
  have c: "(\<forall>m \<in> set (getMessagesByConversation example_store (str ''c1'')).
              timestamp m \<le> user_now example_draws)
       \<and> user_now example_draws \<le> assistant_now example_draws"
    by (simp add: old) (simp add: example_message_def example_draws_def)
  from post_api_chat_existing_conversation [of example_parse, OF h1 h2 h3 h4 h5 h6 h7 h8]
  obtain um am where
      u: "um = \<lparr>id_msg = user_uuid example_draws, conversationId = Some (str ''c1''),
             role = str ''user'',
             content = req_message (example_request (Some (str ''c1''))),
             timestamp = user_now example_draws\<rparr>"
    and a: "am = \<lparr>id_msg = assistant_uuid example_draws, conversationId = Some (str ''c1''),
             role = str ''assistant'', content = str ''Hello!'',
             timestamp = assistant_now example_draws\<rparr>"
    and r: "post_api_chat example_parse example_env example_ai example_draws example_store
              (example_request (Some (str ''c1''))) =
        (\<lparr>status = 200, body = ChatResponse (str ''Hello!'') (str ''c1'')\<rparr>,
         example_store\<lparr>messages := messages example_store
            @ [(user_uuid example_draws, um), (assistant_uuid example_draws, am)]\<rparr>)"
    and q: "getMessagesByConversation (snd (post_api_chat example_parse example_env example_ai
              example_draws example_store (example_request (Some (str ''c1''))))) (str ''c1'')
          = getMessagesByConversation example_store (str ''c1'') @ [um, am]
        \<longleftrightarrow> (\<forall>m \<in> set (getMessagesByConversation example_store (str ''c1'')).
               timestamp m \<le> user_now example_draws)
            \<and> user_now example_draws \<le> assistant_now example_draws"
    by blast
  from q c have "getMessagesByConversation (snd (post_api_chat example_parse example_env
        example_ai example_draws example_store (example_request (Some (str ''c1'')))))
        (str ''c1'') = getMessagesByConversation example_store (str ''c1'') @ [um, am]"
    by blast
  then have "map id_msg (getMessagesByConversation (snd (post_api_chat example_parse example_env
        example_ai example_draws example_store (example_request (Some (str ''c1'')))))
        (str ''c1''))
     = [str ''m3'', str ''m4'', str ''m1'', str ''m5'', str ''m6'']"
    by (simp add: old u a example_message_def example_draws_def)
  with r show ?thesis by simp
qed

section \<open>A turn whose generation fails\<close>

text \<open>
  C2. For every request that the parse accepts: if \<open>generateChatResponse\<close>, called on
  the request's message and the history the handler loads, throws, the handler answers
  400 with an error body and returns the store as it found it: no conversation and no
  message is written. In particular, when neither credential variable is set (unset or
  empty), the answer is 400 with the message of the missing key, and the store is as
  before. More generally, whenever the answer is not a 200 the store is as before.
\<close>

theorem post_api_chat_generation_failure:
  "(parse req_body = Inr req
      \<and> generateChatResponse env ai (req_message req)
            (conversationHistory_of s (req_conversationId req)) = Inl e
     \<longrightarrow> (\<exists>m. post_api_chat parse env ai d s req_body
                = (\<lparr>status = 400, body = ErrorBody m\<rparr>, s)))
   \<and> (parse req_body = Inr req
      \<and> or_null (GEMINI_API_KEY env) = None \<and> or_null (GOOGLE_API_KEY env) = None
     \<longrightarrow> post_api_chat parse env ai d s req_body
           = (\<lparr>status = 400,
               body = ErrorBody (str ''Invalid or missing API key. Please check your Gemini API configuration.'')\<rparr>,
              s))
   \<and> (status (fst (post_api_chat parse env ai d s req_body)) \<noteq> 200
     \<longrightarrow> snd (post_api_chat parse env ai d s req_body) = s)"
proof (intro conjI impI)
  assume a: "parse req_body = Inr req
      \<and> generateChatResponse env ai (req_message req)
            (conversationHistory_of s (req_conversationId req)) = Inl e"
  then obtain m where "e = new_Error m"
    using generateChatResponse_throws by blast
  with a post_api_chat_failure [of parse req_body req env ai s e d]
  show "\<exists>m. post_api_chat parse env ai d s req_body = (\<lparr>status = 400, body = ErrorBody m\<rparr>, s)"
    by (simp add: new_Error_def)
next
  assume a: "parse req_body = Inr req
      \<and> or_null (GEMINI_API_KEY env) = None \<and> or_null (GOOGLE_API_KEY env) = None"
  then have "generateChatResponse env ai (req_message req)
            (conversationHistory_of s (req_conversationId req))
          = Inl (new_Error (str ''Invalid or missing API key. Please check your Gemini API configuration.''))"
    by (simp add: generateChatResponse_def generateChatResponse_try_def no_credential_message)
  with a post_api_chat_failure [of parse req_body req env ai s _ d]
  show "post_api_chat parse env ai d s req_body
           = (\<lparr>status = 400,
               body = ErrorBody (str ''Invalid or missing API key. Please check your Gemini API configuration.'')\<rparr>,
              s)"
    by (simp add: new_Error_def)
next
  assume "status (fst (post_api_chat parse env ai d s req_body)) \<noteq> 200"
  then show "snd (post_api_chat parse env ai d s req_body) = s"
    by (rule post_api_chat_not_200)
qed

theorem post_api_chat_generation_failure_witness:
  "post_api_chat example_parse example_env failing_ai example_draws example_store
       (example_request None)
     = (\<lparr>status = 400, body = ErrorBody (str ''API quota exceeded. Please try again later.'')\<rparr>,
        example_store)
   \<and> post_api_chat example_parse no_key_env example_ai example_draws example_store
       (example_request None)
     = (\<lparr>status = 400,
         body = ErrorBody (str ''Invalid or missing API key. Please check your Gemini API configuration.'')\<rparr>,
        example_store)
   \<and> snd (post_api_chat example_parse no_key_env example_ai example_draws example_store
       (example_request (Some (str ''c1'')))) = example_store"
proof -
  have h1: "example_parse (example_request None) = Inr (example_request None)"
    by (simp add: example_parse_def example_request_def str_def)
  have i: "str_includes (str ''quota exhausted'') (str ''quota'')"
    "\<not> str_includes (str ''quota exhausted'') (str ''API_KEY'')"
    by (simp_all add: str_def)
  have h2: "generateChatResponse example_env failing_ai (req_message (example_request None))
              (conversationHistory_of example_store (req_conversationId (example_request None)))
            = Inl (new_Error (str ''API quota exceeded. Please try again later.''))"
    by (simp add: generateChatResponse_def generateChatResponse_try_def example_env_def
        failing_ai_def i) (simp add: str_def)
  from post_api_chat_generation_failure
         [of example_parse "example_request None" "example_request None" example_env failing_ai
             example_store _ example_draws] h1 h2
  have a: "\<exists>m. post_api_chat example_parse example_env failing_ai example_draws example_store
              (example_request None) = (\<lparr>status = 400, body = ErrorBody m\<rparr>, example_store)"
    by blast
  have "post_api_chat example_parse example_env failing_ai example_draws example_store
          (example_request None)
        = (post_api_chat_catch (new_Error (str ''API quota exceeded. Please try again later.'')),
           example_store)"
    using h1 h2 by (simp add: post_api_chat_def post_api_chat_try_def)
  then have a': "post_api_chat example_parse example_env failing_ai example_draws example_store
       (example_request None)
     = (\<lparr>status = 400, body = ErrorBody (str ''API quota exceeded. Please try again later.'')\<rparr>,
        example_store)"
    using a by (simp add: new_Error_def)
  have k: "or_null (GEMINI_API_KEY no_key_env) = None \<and> or_null (GOOGLE_API_KEY no_key_env) = None"
    by (simp add: no_key_env_def)
  from post_api_chat_generation_failure
         [of example_parse "example_request None" "example_request None" no_key_env example_ai
             example_store _ example_draws] h1 k
  have b: "post_api_chat example_parse no_key_env example_ai example_draws example_store
       (example_request None)
     = (\<lparr>status = 400,
         body = ErrorBody (str ''Invalid or missing API key. Please check your Gemini API configuration.'')\<rparr>,
        example_store)"
    by blast
  have h1': "example_parse (example_request (Some (str ''c1'')))
              = Inr (example_request (Some (str ''c1'')))"
    by (simp add: example_parse_def example_request_def str_def)
  from post_api_chat_generation_failure
         [of example_parse "example_request (Some (str ''c1''))"
             "example_request (Some (str ''c1''))" no_key_env example_ai
             example_store _ example_draws] h1' k
  have "post_api_chat example_parse no_key_env example_ai example_draws example_store
       (example_request (Some (str ''c1'')))
     = (\<lparr>status = 400,
         body = ErrorBody (str ''Invalid or missing API key. Please check your Gemini API configuration.'')\<rparr>,
        example_store)"
    by blast
  then have c: "snd (post_api_chat example_parse no_key_env example_ai example_draws example_store
       (example_request (Some (str ''c1'')))) = example_store"
    by simp
  from a' b c show ?thesis by blast
qed

section \<open>What a successful turn stores and what it answers\<close>

text \<open>
  C9. Whenever the handler answers 200 to a request that the parse accepted (with
  \<open>randomUUID()\<close> giving two different ids not yet used for a message), the store has
  gained exactly two messages at its end: the first has role user and the request's
  message as its content, the second has role assistant and as its content the very
  string of the \<open>response\<close> field of the answer.
\<close>

theorem post_api_chat_transcript_matches_reply:
  assumes "parse req_body = Inr req"
    and "post_api_chat parse env ai d s req_body = (res, s')"
    and "status res = 200"
    and "user_uuid d \<notin> set (map_keys (messages s))"
    and "assistant_uuid d \<notin> set (map_keys (messages s))"
    and "user_uuid d \<noteq> assistant_uuid d"
  shows "\<exists>um am c. messages s' = messages s @ [(user_uuid d, um), (assistant_uuid d, am)]
    \<and> role um = str ''user'' \<and> content um = req_message req
    \<and> role am = str ''assistant'' \<and> body res = ChatResponse (content am) c"
proof (cases "generateChatResponse env ai (req_message req)
            (conversationHistory_of s (req_conversationId req))")
  case (Inl e)
  then obtain m where "e = new_Error m"
    using generateChatResponse_throws by blast
  with Inl assms(1) post_api_chat_failure [of parse req_body req env ai s e d]
  have "post_api_chat parse env ai d s req_body = (\<lparr>status = 400, body = ErrorBody m\<rparr>, s)"
    by (simp add: new_Error_def)
  with assms(2,3) show ?thesis by auto
next
  case (Inr aiResponse)
  obtain t where t: "generateConversationTitle ai (req_message req) = Inr t"
    using generateConversationTitle_returns by blast
  from assms(1,2,4-6) Inr t show ?thesis
    by (cases "or_null (req_conversationId req)")
       (auto simp: post_api_chat_def post_api_chat_try_def createConversation_def
          createMessage_def Let_def map_set_fresh map_keys_def)
qed

theorem post_api_chat_transcript_matches_reply_witness:
  "map (\<lambda>e. (role (snd e), content (snd e)))
     (drop 4 (messages (snd (post_api_chat example_parse example_env example_ai example_draws
        example_store (example_request (Some (str ''c1'')))))))
     = [(str ''user'', str ''hi''), (str ''assistant'', str ''Hello!'')]
   \<and> body (fst (post_api_chat example_parse example_env example_ai example_draws
        example_store (example_request (Some (str ''c1'')))))
     = ChatResponse (str ''Hello!'') (str ''c1'')"
proof -
  let ?r = "post_api_chat example_parse example_env example_ai example_draws
        example_store (example_request (Some (str ''c1'')))"
  have h1: "example_parse (example_request (Some (str ''c1'')))
              = Inr (example_request (Some (str ''c1'')))"
    by (simp add: example_parse_def example_request_def str_def)
  have c: "req_conversationId (example_request (Some (str ''c1''))) = Some (str ''c1'')"
    by (simp add: example_request_def)
  have n: "str ''c1'' \<noteq> []"
    by (simp add: str_def)
  have g: "generateChatResponse example_env example_ai
              (req_message (example_request (Some (str ''c1''))))
              (conversationHistory_of example_store (Some (str ''c1''))) = Inr (str ''Hello!'')"
    by (simp add: generateChatResponse_def generateChatResponse_try_def example_env_def
        example_ai_def str_def)
  have h4: "user_uuid example_draws \<notin> set (map_keys (messages example_store))"
    by (simp add: example_draws_def example_store_def map_keys_def str_def)
  have h5: "assistant_uuid example_draws \<notin> set (map_keys (messages example_store))"
    by (simp add: example_draws_def example_store_def map_keys_def str_def)
  have h6: "user_uuid example_draws \<noteq> assistant_uuid example_draws"
    by (simp add: example_draws_def str_def)
  have f: "fst ?r = \<lparr>status = 200, body = ChatResponse (str ''Hello!'') (str ''c1'')\<rparr>"
    using post_api_chat_existing
            [where parse = example_parse and req = "example_request (Some (str ''c1''))"
               and req_body = "example_request (Some (str ''c1''))" and d = example_draws
               and s = example_store, OF h1 c n g h4 h5 h6]
    by simp
  have h2: "?r = (fst ?r, snd ?r)"
    by simp
  have h3: "status (fst ?r) = 200"
    by (simp add: f)
  from post_api_chat_transcript_matches_reply [OF h1 h2 h3 h4 h5 h6]
  obtain um am c where m: "messages (snd ?r) = messages example_store
        @ [(user_uuid example_draws, um), (assistant_uuid example_draws, am)]"
    and u: "role um = str ''user''" "content um = req_message (example_request (Some (str ''c1'')))"
    and a: "role am = str ''assistant''" "body (fst ?r) = ChatResponse (content am) c"
    by blast
  from a(2) f have "content am = str ''Hello!''"
    by simp
  with m u a(1) f show ?thesis
    by (simp add: example_store_def example_request_def)
qed

section \<open>Conversation titles\<close>

text \<open>
  C8. \<open>generateConversationTitle\<close> always returns a title and never throws, whatever
  the provider does; when the provider call throws, or its text is undefined or the
  empty string, the title is exactly "New Conversation".
\<close>

theorem generateConversationTitle_never_raises:
  "(\<exists>t. generateConversationTitle ai firstMessage = Inr t)
   \<and> ((\<exists>e. ai (title_request firstMessage) = Inl e)
        \<or> ai (title_request firstMessage) = Inr None
        \<or> ai (title_request firstMessage) = Inr (Some [])
       \<longrightarrow> generateConversationTitle ai firstMessage = Inr (str ''New Conversation''))"
proof
  show "\<exists>t. generateConversationTitle ai firstMessage = Inr t"
    by (rule generateConversationTitle_returns)
  show "(\<exists>e. ai (title_request firstMessage) = Inl e)
        \<or> ai (title_request firstMessage) = Inr None
        \<or> ai (title_request firstMessage) = Inr (Some [])
       \<longrightarrow> generateConversationTitle ai firstMessage = Inr (str ''New Conversation'')"
    by (auto simp: generateConversationTitle_def generateConversationTitle_try_def Let_def
        default_title_clean)
qed

theorem generateConversationTitle_never_raises_witness:
  "generateConversationTitle failing_ai (str ''hi'') = Inr (str ''New Conversation'')
   \<and> generateConversationTitle (\<lambda>r. Inr (Some [])) (str ''hi'') = Inr (str ''New Conversation'')"
proof -
  have "\<exists>e. failing_ai (title_request (str ''hi'')) = Inl e"
    by (simp add: failing_ai_def)
  with generateConversationTitle_never_raises [of failing_ai "str ''hi''"]
  have a: "generateConversationTitle failing_ai (str ''hi'') = Inr (str ''New Conversation'')"
    by blast
  from generateConversationTitle_never_raises [of "\<lambda>r. Inr (Some [])" "str ''hi''"]
  have "generateConversationTitle (\<lambda>r. Inr (Some [])) (str ''hi'') = Inr (str ''New Conversation'')"
    by blast
  with a show ?thesis by blast
qed

section \<open>Failures and status codes\<close>











end
